theory Spec2Isabelle
  imports Complex_Main "HOL-Library.AList" "HOL-Library.Sublist"
begin

section \<open>Common vocabulary of the two testers\<close>

text \<open>
  Both scripts drive the server under test through \<^verbatim>\<open>subprocess\<close>. What the outside
  world answers to a call is an argument of the model; what the script does with the answer
  is the model. An exception is a value: \<open>Inl e\<close> of a sum type.
\<close>

datatype exn = TimeoutExpired | OtherException

text \<open>
  \<^verbatim>\<open>subprocess.run\<close> either raises or returns a \<^verbatim>\<open>CompletedProcess\<close>.
\<close>

record completed_process =
  returncode :: int
  stdout :: string
  stderr :: string

type_synonym run_result = "exn + completed_process"

text \<open>
  The server under test, launched by \<^verbatim>\<open>subprocess.run([binary, config], capture_output=True,
  text=True, timeout=n)\<close>: either the process cannot be started (\<^verbatim>\<open>OSError\<close>), or it
  runs. A running process exits by itself after \<open>exit_after\<close> time units with a return
  code, or never (\<open>None\<close>); what it printed decodes as text or does not.
\<close>

record sut_process =
  exit_after :: "(nat \<times> int) option"
  printed_out :: string
  printed_err :: string
  output_decodes :: bool

datatype sut_launch = NotStarted | Started sut_process


text \<open>
  A \<^verbatim>\<open>Popen\<close> handle, as the scripts observe it: \<open>poll\<close> is what \<^verbatim>\<open>poll()\<close> reports when
  the script looks (\<open>None\<close> while the process runs, the return code once it has exited);
  \<open>sigterm_exit\<close> is the number of time units a running process needs to exit once it
  has received SIGTERM, \<open>None\<close> for a process that never exits on SIGTERM.
\<close>

record popen =
  poll :: "int option"
  sigterm_exit :: "nat option"

text \<open>
  \<^verbatim>\<open>p.wait(timeout=n)\<close> after \<^verbatim>\<open>p.terminate()\<close>: returns when the process has exited
  by then, raises \<^verbatim>\<open>TimeoutExpired\<close> otherwise.
\<close>

definition wait_timeout :: "popen \<Rightarrow> nat \<Rightarrow> exn + unit" where
  "wait_timeout p n =
     (case poll p of
        Some rc \<Rightarrow> Inr ()
      | None \<Rightarrow>
          (case sigterm_exit p of
             Some d \<Rightarrow> if d \<le> n then Inr () else Inl TimeoutExpired
           | None \<Rightarrow> Inl TimeoutExpired))"

text \<open>
  \<^verbatim>\<open>p.wait()\<close> after \<^verbatim>\<open>p.terminate()\<close>: blocks until the process exits. \<open>None\<close> is the
  call that never returns.
\<close>

definition wait_forever :: "popen \<Rightarrow> unit option" where
  "wait_forever p =
     (case poll p of
        Some rc \<Rightarrow> Some ()
      | None \<Rightarrow> (case sigterm_exit p of Some d \<Rightarrow> Some () | None \<Rightarrow> None))"

text \<open>
  What a script does to a process or prints, in order. Printed lines are kept without
  colour codes, check marks and file names.
\<close>

datatype action =
    Printed string
  | Spawn
  | Sleep nat
  | Terminate
  | Wait "nat option"
  | Kill
  | Section string

subsection \<open>Python strings\<close>

text \<open>
  Characters are code points below 256. \<^verbatim>\<open>str.isspace\<close> holds there for 9 to 13, 28 to
  32, 133 and 160.
\<close>

definition is_space :: "char \<Rightarrow> bool" where
  "is_space c =
     (let n = (of_char c :: nat)
      in (9 \<le> n \<and> n \<le> 13) \<or> (28 \<le> n \<and> n \<le> 32) \<or> n = 133 \<or> n = 160)"

text \<open>\<^verbatim>\<open>s.strip()\<close>\<close>

definition strip :: "string \<Rightarrow> string" where
  "strip s = rev (dropWhile is_space (rev (dropWhile is_space s)))"

text \<open>\<^verbatim>\<open>s.replace("'", "")\<close>\<close>

definition replace_quote :: "string \<Rightarrow> string" where
  "replace_quote s = filter (\<lambda>c. c \<noteq> CHR 0x27) s"

text \<open>\<^verbatim>\<open>needle in haystack\<close> on strings\<close>

fun str_in :: "string \<Rightarrow> string \<Rightarrow> bool" where
  "str_in needle [] = (needle = [])"
| "str_in needle (c # cs) = (prefix needle (c # cs) \<or> str_in needle cs)"

text \<open>\<^verbatim>\<open>str(n)\<close> for an integer\<close>

fun digits :: "nat \<Rightarrow> string" where
  "digits n =
     (if n < 10 then [char_of (48 + n)]
      else digits (n div 10) @ [char_of (48 + n mod 10)])"

declare digits.simps [simp del]

definition str_int :: "int \<Rightarrow> string" where
  "str_int n = (if n < 0 then CHR ''-'' # digits (nat (- n)) else digits (nat n))"

text \<open>
  A section function of the advanced tester returns \<^verbatim>\<open>True\<close>, \<^verbatim>\<open>False\<close> or
  \<^verbatim>\<open>None\<close>, or raises: \<open>Inr (Some b)\<close>, \<open>Inr None\<close>, \<open>Inl e\<close>.
\<close>

type_synonym section_call = "exn + bool option"

section \<open>TesterBasic.py\<close>

subsection \<open>\<^verbatim>\<open>run_curl\<close>\<close>

text \<open>The text appended at line 41.\<close>

definition status_suffix :: string where
  "status_suffix = '' -o /dev/null -w '%{http_code}'' @ [CHR 0x27]"

text \<open>
  The \<^verbatim>\<open>if\<close>/\<^verbatim>\<open>elif\<close>/\<^verbatim>\<open>else\<close> of lines 45 to 53. \<^verbatim>\<open>expected_code\<close> is \<^verbatim>\<open>None\<close> or an
  integer; \<^verbatim>\<open>None\<close> and \<^verbatim>\<open>0\<close> are false in a condition.
\<close>

definition truthy :: "int option \<Rightarrow> bool" where
  "truthy expected_code = (case expected_code of None \<Rightarrow> False | Some n \<Rightarrow> n \<noteq> 0)"

definition judge :: "int option \<Rightarrow> string \<Rightarrow> bool" where
  "judge expected_code status_code =
     (if truthy expected_code \<and> str_int (the expected_code) = status_code then True
      else if truthy expected_code then False
      else True)"

text \<open>
  \<^verbatim>\<open>run_curl\<close> (lines 35 to 59). The shell \<open>sh\<close> executes a command line against the
  world \<open>w\<close> (the server under test and everything behind it) with the timeout of 5 and
  gives the outcome and the world after it. Both \<^verbatim>\<open>except\<close> clauses return \<^verbatim>\<open>False\<close>.
\<close>

definition run_curl ::
  "('w \<Rightarrow> string \<Rightarrow> run_result \<times> 'w) \<Rightarrow> string \<Rightarrow> int option \<Rightarrow> 'w \<Rightarrow> bool \<times> 'w" where
  "run_curl sh command expected_code w =
     (case sh w command of
        (Inl e, w1) \<Rightarrow> (False, w1)
      | (Inr result, w1) \<Rightarrow>
          (let curl_status_cmd = command @ status_suffix
           in case sh w1 curl_status_cmd of
                (Inl e, w2) \<Rightarrow> (False, w2)
              | (Inr status_result, w2) \<Rightarrow>
                  (let status_code = replace_quote (strip (stdout status_result))
                   in (judge expected_code status_code, w2))))"

text \<open>
  A shell that answers each command line by a fixed table and records what it was asked
  to execute: the world is the list of executed command lines.
\<close>

definition recording_shell ::
  "(string \<Rightarrow> run_result) \<Rightarrow> string list \<Rightarrow> string \<Rightarrow> run_result \<times> string list" where
  "recording_shell answer executed command = (answer command, executed @ [command])"

subsection \<open>\<^verbatim>\<open>test_error_codes\<close>\<close>

text \<open>The table \<^verbatim>\<open>tests\<close> of lines 65 to 87.\<close>

definition error_code_tests :: "(string \<times> int) list" where
  "error_code_tests =
     [(''curl -X INVALID http://127.0.0.1:8888/'', 400),
      (''curl -H '' @ [CHR 0x27] @ ''Host:'' @ [CHR 0x27] @ '' http://127.0.0.1:8888/'', 400),
      (''curl --request-target '' @ [CHR 0x27] @ ''*'' @ [CHR 0x27]
         @ '' http://127.0.0.1:8888/'', 400),
      (''curl -X POST http://127.0.0.1:8888/'', 403),
      (''curl -X DELETE http://127.0.0.1:8888/index.html'', 403),
      (''curl http://127.0.0.1:8888/nonexistent'', 404),
      (''curl http://127.0.0.1:8888/no_such_file.html'', 404),
      (''curl http://127.0.0.1:8888/uploads/'', 404),
      (''curl -X PUT http://127.0.0.1:8888/'', 405),
      (''curl -X PATCH http://127.0.0.1:8888/'', 405),
      (''curl -X OPTIONS http://127.0.0.1:8888/'', 405),
      (''curl -X POST -H '' @ [CHR 0x27] @ ''Content-Type: text/plain'' @ [CHR 0x27]
         @ '' --data '' @ [CHR 0x27] @ replicate 60000 CHR ''x'' @ [CHR 0x27]
         @ '' http://127.0.0.1:8888/methods'', 413)]"

text \<open>The loop of lines 89 to 92 and the result of line 95.\<close>

fun count_passed ::
  "('w \<Rightarrow> string \<Rightarrow> run_result \<times> 'w) \<Rightarrow> (string \<times> int) list \<Rightarrow> nat \<Rightarrow> 'w \<Rightarrow> nat \<times> 'w" where
  "count_passed sh [] passed w = (passed, w)"
| "count_passed sh ((cmd, expected) # tests) passed w =
     (case run_curl sh cmd (Some expected) w of
        (True, w') \<Rightarrow> count_passed sh tests (passed + 1) w'
      | (False, w') \<Rightarrow> count_passed sh tests passed w')"

definition test_error_codes :: "('w \<Rightarrow> string \<Rightarrow> run_result \<times> 'w) \<Rightarrow> 'w \<Rightarrow> bool \<times> 'w" where
  "test_error_codes sh w =
     (let (passed, w') = count_passed sh error_code_tests 0 w
      in (passed = length error_code_tests, w'))"

subsection \<open>\<^verbatim>\<open>test_config_errors\<close>\<close>



subsection \<open>\<^verbatim>\<open>start_server\<close>, \<^verbatim>\<open>stop_server\<close> and \<^verbatim>\<open>run_all_tests\<close>\<close>

text \<open>The tester object: the current process handle, and what the script has done so far.\<close>

record tester =
  server_process :: "popen option"
  actions :: "action list"

definition does :: "action list \<Rightarrow> tester \<Rightarrow> tester" where
  "does acts t = t\<lparr>actions := actions t @ acts\<rparr>"

text \<open>
  \<^verbatim>\<open>start_server\<close> (lines 404 to 420); \<open>p\<close> is the process that \<^verbatim>\<open>Popen\<close> creates.
\<close>

definition start_server :: "popen \<Rightarrow> tester \<Rightarrow> bool \<times> tester" where
  "start_server p t =
     (let t1 = does [Printed ''Starting webserv'', Spawn, Sleep 3] (t\<lparr>server_process := Some p\<rparr>)
      in if poll p \<noteq> None then (False, does [Printed ''Server failed to start''] t1)
         else (True, does [Printed ''Server started successfully''] t1))"

text \<open>
  \<^verbatim>\<open>stop_server\<close> (lines 422 to 433). Only \<^verbatim>\<open>TimeoutExpired\<close> is caught; any other
  exception of \<^verbatim>\<open>wait\<close> would leave the function.
\<close>

definition stop_server :: "tester \<Rightarrow> exn + tester" where
  "stop_server t =
     (case server_process t of
        None \<Rightarrow> Inr t
      | Some p \<Rightarrow>
          (let t1 = does [Printed ''Stopping server...'', Terminate, Wait (Some 5)] t
           in case wait_timeout p 5 of
                Inr u \<Rightarrow> Inr ((does [Printed ''Server stopped''] t1)\<lparr>server_process := None\<rparr>)
              | Inl TimeoutExpired \<Rightarrow>
                  Inr ((does [Kill, Printed ''Server killed''] t1)\<lparr>server_process := None\<rparr>)
              | Inl OtherException \<Rightarrow> Inl OtherException))"

text \<open>
  One run of \<^verbatim>\<open>run_all_tests\<close>: the process each \<^verbatim>\<open>start_server\<close> creates and what each
  section function returned. (The section functions catch their own exceptions and return
  a boolean; the model covers the runs in which each of them returns.)
\<close>

record general_run =
  first_server :: popen
  error_codes :: bool
  file_uploads :: bool
  permissions :: bool
  autoindex :: bool
  cgi_basic :: bool
  cookies :: bool
  config_errors :: bool
  second_server :: popen
  multiple_servers :: bool

datatype banner = ALL_PASSED | MOST_PASSED | MULTIPLE_FAILED

record summary =
  test_results :: "(string \<times> bool) list"
  passed_count :: nat
  total_count :: nat
  closing :: banner

text \<open>Lines 467 to 486.\<close>

definition summarize :: "(string \<times> bool) list \<Rightarrow> summary" where
  "summarize results =
     (let passed = length (filter (\<lambda>(name, result). result) results);
          total = length results
      in \<lparr>test_results = results, passed_count = passed, total_count = total,
          closing = (if passed = total then ALL_PASSED
                     else if (of_nat passed :: rat) \<ge> of_nat total * (7 / 10) then MOST_PASSED
                     else MULTIPLE_FAILED)\<rparr>)"

text \<open>
  \<^verbatim>\<open>run_all_tests\<close> (lines 435 to 486). The result is the tester afterwards and the
  summary, \<open>None\<close> when the function returns at line 444 without one; \<open>Inl e\<close> is an
  exception leaving the function.
\<close>

definition run_all_tests :: "general_run \<Rightarrow> tester \<Rightarrow> exn + (tester \<times> summary option)" where
  "run_all_tests w t =
     (case start_server (first_server w) t of
        (False, t1) \<Rightarrow> Inr (does [Printed ''Failed to start server, aborting tests''] t1, None)
      | (True, t1) \<Rightarrow>
          (let test_results =
                 [(''Error Codes'', error_codes w), (''File Uploads'', file_uploads w),
                  (''Permissions'', permissions w), (''Autoindex'', autoindex w),
                  (''CGI'', cgi_basic w), (''Cookies'', cookies w)];
               t2 = does (map Section (map fst test_results)) t1
           in case stop_server t2 of
                Inl e \<Rightarrow> Inl e
              | Inr t3 \<Rightarrow>
                  (let test_results = test_results @ [(''Config Errors'', config_errors w)];
                       t4 = does [Section ''Config Errors''] t3
                   in case start_server (second_server w) t4 of
                        (True, t5) \<Rightarrow>
                          (let test_results =
                                 test_results @ [(''Multiple Servers'', multiple_servers w)];
                               t6 = does [Section ''Multiple Servers''] t5
                           in case stop_server t6 of
                                Inl e \<Rightarrow> Inl e
                              | Inr t7 \<Rightarrow> Inr (t7, Some (summarize test_results)))
                      | (False, t5) \<Rightarrow> Inr (t5, Some (summarize test_results)))))"

section \<open>TesterAdvanced.py: the section functions\<close>

text \<open>
  Every section function of this script stops its server by \<^verbatim>\<open>terminate()\<close> followed by
  \<^verbatim>\<open>wait()\<close> with no timeout (lines 148 and 149, 256 and 257, 321 and 322, ...). The
  result is what was done, or \<open>None\<close> when \<^verbatim>\<open>wait()\<close> never returns.
\<close>

definition terminate_and_wait :: "popen \<Rightarrow> action list option" where
  "terminate_and_wait p =
     (case wait_forever p of None \<Rightarrow> None | Some u \<Rightarrow> Some [Terminate, Wait None])"

text \<open>
  \<^verbatim>\<open>test_io_multiplexing\<close> (lines 105 to 149): \<open>p\<close> is the started server, \<open>is_linux\<close> the
  test of \<^verbatim>\<open>sys.platform\<close>, \<open>strace\<close> the outcome of the \<^verbatim>\<open>strace\<close> command. The
  \<^verbatim>\<open>finally\<close> clause runs on every path. \<open>None\<close>: the call never returns.
\<close>

definition test_io_multiplexing ::
  "popen \<Rightarrow> bool \<Rightarrow> run_result \<Rightarrow> (section_call \<times> action list) option" where
  "test_io_multiplexing p is_linux strace =
     (let body =
            (if is_linux then
               (case strace of
                  Inl e \<Rightarrow> Inr (Some False)
                | Inr result \<Rightarrow>
                    (let syscalls = stdout result @ stderr result;
                         has_select = (str_in ''select('' syscalls \<or> str_in ''pselect('' syscalls);
                         has_poll = (str_in ''poll('' syscalls \<or> str_in ''ppoll('' syscalls);
                         has_epoll = str_in ''epoll_'' syscalls
                     in if has_select \<or> has_poll \<or> has_epoll then Inr (Some True)
                        else Inr (Some False)))
             else Inr None)
      in case terminate_and_wait p of
           None \<Rightarrow> None
         | Some acts \<Rightarrow> Some (body, [Spawn, Sleep 2] @ acts))"

text \<open>
  \<^verbatim>\<open>test_basic_checks\<close> (lines 261 to 324): the standard output of the five judged
  \<^verbatim>\<open>curl\<close> commands.
\<close>

record basic_outputs =
  get_out :: string
  post_out :: string
  delete_out :: string
  unknown_out :: string
  upload_out :: string

text \<open>The list \<^verbatim>\<open>tests_passed\<close> as line 317 leaves it.\<close>

definition basic_tests_passed :: "basic_outputs \<Rightarrow> bool list" where
  "basic_tests_passed out =
     [str_in ''200'' (get_out out),
      str_in ''201'' (post_out out) \<or> str_in ''200'' (post_out out),
      strip (delete_out out) \<in> set [''200'', ''204'', ''404''],
      strip (unknown_out out) \<in> set [''400'', ''405'', ''501''],
      str_in ''201'' (upload_out out) \<or> str_in ''200'' (upload_out out)]"

definition test_basic_checks ::
  "popen \<Rightarrow> basic_outputs \<Rightarrow> (section_call \<times> action list) option" where
  "test_basic_checks p out =
     (let tests_passed = basic_tests_passed out
      in case terminate_and_wait p of
           None \<Rightarrow> None
         | Some acts \<Rightarrow>
             Some (Inr (Some (list_all id tests_passed)), [Spawn, Sleep 2, Sleep 1] @ acts))"

text \<open>
  \<^verbatim>\<open>test_port_issues\<close> (lines 447 to 539). \<open>dup_run\<close> is the outcome of
  \<^verbatim>\<open>subprocess.run([binary, path], timeout=2)\<close> with the fixture that lists
  \<^verbatim>\<open>listen 8080\<close> twice in one server block; the call is not inside a \<^verbatim>\<open>try\<close>, so an
  exception leaves the function. \<open>server1\<close> and \<open>server2\<close> are the two processes started
  on port 7777, each followed by \<^verbatim>\<open>time.sleep(2)\<close>; \<open>poll2_later\<close> is what the second
  \<^verbatim>\<open>server2.poll()\<close> (line 532) reports.
\<close>

text \<open>
  The list \<^verbatim>\<open>tests_passed\<close> as line 528 leaves it: the entry of line 474, then the entry
  of line 526.
\<close>

definition port_tests_passed :: "run_result \<Rightarrow> popen \<Rightarrow> popen \<Rightarrow> exn + bool list" where
  "port_tests_passed dup_run server1 server2 =
     (case dup_run of
        Inl e \<Rightarrow> Inl e
      | Inr result \<Rightarrow>
          (let tests_passed = [returncode result \<noteq> 0];
               test_passed = (poll server2 \<noteq> None)
           in Inr (tests_passed @ [test_passed])))"

definition test_port_issues ::
  "run_result \<Rightarrow> popen \<Rightarrow> popen \<Rightarrow> int option \<Rightarrow> (exn + bool) option" where
  "test_port_issues dup_run server1 server2 poll2_later =
     (case port_tests_passed dup_run server1 server2 of
        Inl e \<Rightarrow> Some (Inl e)
      | Inr tests_passed \<Rightarrow>
          (case terminate_and_wait server1 of
             None \<Rightarrow> None
           | Some acts \<Rightarrow>
               if poll2_later = None then
                 (case sigterm_exit server2 of
                    None \<Rightarrow> None
                  | Some d \<Rightarrow> Some (Inr (list_all id tests_passed)))
               else Some (Inr (list_all id tests_passed))))"

section \<open>TesterAdvanced.py: the orchestrator \<^verbatim>\<open>run_correction_tests\<close>\<close>

text \<open>
  A section function returns \<^verbatim>\<open>True\<close>, \<^verbatim>\<open>False\<close> or \<^verbatim>\<open>None\<close>, or raises.
  \<open>Inr (Some b)\<close> is a returned boolean, \<open>Inr None\<close> a returned \<^verbatim>\<open>None\<close>,
  \<open>Inl e\<close> a raised exception (one that \<^verbatim>\<open>except Exception\<close> catches).
\<close>

text \<open>
  \<^verbatim>\<open>check_memory_leaks\<close> (lines 42 to 103): after \<^verbatim>\<open>print_section\<close> every line of the body
  is commented out, so the call falls off the end of the function and yields \<^verbatim>\<open>None\<close>.
\<close>

definition check_memory_leaks :: section_call where
  "check_memory_leaks = Inr None"

text \<open>
  What the other eight section functions did when the loop called them, in one run.
\<close>

record section_calls =
  io_multiplexing :: section_call
  configuration :: section_call
  basic_checks :: section_call
  cgi :: section_call
  browser_compatibility :: section_call
  port_issues :: section_call
  stress :: section_call
  bonus :: section_call

text \<open>The list \<^verbatim>\<open>test_sections\<close> (lines 660 to 670), in the source's order.\<close>

definition test_sections :: "section_calls \<Rightarrow> (string \<times> section_call) list" where
  "test_sections w =
     [(''Memory Leaks'', check_memory_leaks),
      (''I/O Multiplexing'', io_multiplexing w),
      (''Configuration'', configuration w),
      (''Basic Checks'', basic_checks w),
      (''CGI'', cgi w),
      (''Browser Compatibility'', browser_compatibility w),
      (''Port Issues'', port_issues w),
      (''Stress Tests'', stress w),
      (''Bonus Features'', bonus w)]"

text \<open>The names tested at line 681.\<close>

definition mandatory_sections :: "string list" where
  "mandatory_sections =
     [''Memory Leaks'', ''I/O Multiplexing'', ''Configuration'', ''Basic Checks'']"

text \<open>
  The dictionary \<^verbatim>\<open>results\<close> keeps insertion order; an association list updated in place
  (\<open>AList.update\<close>) does the same.
\<close>

type_synonym results = "(string \<times> bool option) list"

text \<open>
  The loop of lines 675 to 686. In the \<^verbatim>\<open>try\<close> branch the result is stored and the
  mandatory test of line 681 runs; in the \<^verbatim>\<open>except\<close> branch \<^verbatim>\<open>False\<close> is stored and
  nothing else happens.
\<close>

fun run_sections ::
  "(string \<times> section_call) list \<Rightarrow> results \<times> bool \<Rightarrow> results \<times> bool" where
  "run_sections [] st = st"
| "run_sections ((name, call) # rest) (results, mandatory_fail) =
     (case call of
        Inr result \<Rightarrow>
          run_sections rest
            (AList.update name result results,
             (if name \<in> set mandatory_sections \<and> result = Some False then True
              else mandatory_fail))
      | Inl e \<Rightarrow>
          run_sections rest (AList.update name (Some False) results, mandatory_fail))"

datatype tier = EXCELLENT | GOOD | NEEDS_WORK

text \<open>
  The final verdict (lines 714 to 731): either the banner
  \<^verbatim>\<open>MANDATORY PART FAILED - GRADE: 0\<close>, or a tier with the score line
  \<^verbatim>\<open>passed/total\<close> and the percentage. The source computes the percentage in double
  precision; with at most nine sections the quotient is never within rounding distance of
  90 or 70 without being equal to a fraction on the same side, so the comparison is the one
  on rationals.
\<close>

datatype verdict = HARD_FAIL | Score tier nat nat rat

definition final_verdict :: "results \<Rightarrow> bool \<Rightarrow> verdict" where
  "final_verdict results mandatory_fail =
     (if mandatory_fail then HARD_FAIL
      else
        let passed = length (filter (\<lambda>(name, r). r = Some True) results);
            total = length (filter (\<lambda>(name, r). r \<noteq> None) results);
            percentage = (if total > 0 then of_nat passed / of_nat total * 100 else 0)
        in Score (if percentage \<ge> 90 then EXCELLENT
                  else if percentage \<ge> 70 then GOOD
                  else NEEDS_WORK) passed total percentage)"

text \<open>
  \<^verbatim>\<open>run_correction_tests\<close>: without the binary the function returns before any section
  runs (line 647) and there is no report; otherwise the report is the dictionary and the
  verdict. The model covers runs in which every section call comes back.
\<close>

definition run_correction_tests :: "bool \<Rightarrow> section_calls \<Rightarrow> (results \<times> verdict) option" where
  "run_correction_tests binary_exists w =
     (if \<not> binary_exists then None
      else
        let (results, mandatory_fail) = run_sections (test_sections w) ([], False)
        in Some (results, final_verdict results mandatory_fail))"

text \<open>The aggregate the loop stores for a call, whichever branch stores it.\<close>

definition aggregate :: "section_call \<Rightarrow> bool option" where
  "aggregate call = (case call of Inr result \<Rightarrow> result | Inl e \<Rightarrow> Some False)"

section \<open>Inputs and predicates used in the statements\<close>







definition accepting :: sut_launch where
  "accepting =
     Started \<lparr>exit_after = None, printed_out = [], printed_err = [], output_decodes = True\<rparr>"

text \<open>
  A run in which \<^verbatim>\<open>test_configuration\<close> raises (for instance \<^verbatim>\<open>UnicodeDecodeError\<close>
  from the \<^verbatim>\<open>curl\<close> calls of lines 193 to 196, when a page does not decode as text) and
  every other section function returns \<^verbatim>\<open>True\<close>.
\<close>

definition configuration_raises :: section_calls where
  "configuration_raises =
     \<lparr>io_multiplexing = Inr (Some True), configuration = Inl OtherException,
      basic_checks = Inr (Some True), cgi = Inr (Some True),
      browser_compatibility = Inr (Some True), port_issues = Inr (Some True),
      stress = Inr (Some True), bonus = Inr (Some True)\<rparr>"

text \<open>A run in which every section function returns.\<close>

definition sample_run :: section_calls where
  "sample_run =
     \<lparr>io_multiplexing = Inr (Some True), configuration = Inr (Some True),
      basic_checks = Inr (Some True), cgi = Inr (Some False),
      browser_compatibility = Inr (Some True), port_issues = Inr (Some False),
      stress = Inr None, bonus = Inr (Some False)\<rparr>"

text \<open>Processes: one that runs and exits on SIGTERM, one that ignores SIGTERM, one that
  has exited with return code 1.\<close>

definition obedient :: popen where
  "obedient = \<lparr>poll = None, sigterm_exit = Some 1\<rparr>"

definition stubborn :: popen where
  "stubborn = \<lparr>poll = None, sigterm_exit = None\<rparr>"

definition exited :: popen where
  "exited = \<lparr>poll = Some 1, sigterm_exit = None\<rparr>"

text \<open>A completed \<^verbatim>\<open>subprocess.run\<close> with the given return code and standard output.\<close>

definition completed :: "int \<Rightarrow> string \<Rightarrow> run_result" where
  "completed rc out = Inr \<lparr>returncode = rc, stdout = out, stderr = []\<rparr>"

text \<open>A process that has exited on a signal (return code -11).\<close>

definition crashed :: popen where
  "crashed = \<lparr>poll = Some (- 11), sigterm_exit = None\<rparr>"

text \<open>The first entry of \<^verbatim>\<open>test_error_codes\<close> and a plain request.\<close>

definition invalid_method_probe :: string where
  "invalid_method_probe = ''curl -X INVALID http://127.0.0.1:8888/''"

definition index_probe :: string where
  "index_probe = ''curl http://127.0.0.1:8888/''"

text \<open>
  A server that answers the probe itself with a page and the probe with the status
  suffix with the given status code.
\<close>

definition page_then_status :: "string \<Rightarrow> string \<Rightarrow> string \<Rightarrow> run_result" where
  "page_then_status probe status command =
     (if command = probe then completed 0 ''<html>'' else completed 0 status)"

text \<open>A run of the basic tester whose first server has exited when it is polled.\<close>

definition failed_start :: general_run where
  "failed_start =
     \<lparr>first_server = exited, error_codes = True, file_uploads = True, permissions = True,
      autoindex = True, cgi_basic = True, cookies = True, config_errors = True,
      second_server = obedient, multiple_servers = True\<rparr>"

section \<open>Facts about the orchestrator\<close>

lemma run_sections_step:
  "run_sections ((name, call) # rest) (results, mandatory_fail) =
     run_sections rest
       (AList.update name (aggregate call) results,
        mandatory_fail \<or> (name \<in> set mandatory_sections \<and> call = Inr (Some False)))"
  by (cases call) (auto simp: aggregate_def)

lemma run_sections_test_sections:
  "run_sections (test_sections w) ([], False) =
     ([(''Memory Leaks'', None),
       (''I/O Multiplexing'', aggregate (io_multiplexing w)),
       (''Configuration'', aggregate (configuration w)),
       (''Basic Checks'', aggregate (basic_checks w)),
       (''CGI'', aggregate (cgi w)),
       (''Browser Compatibility'', aggregate (browser_compatibility w)),
       (''Port Issues'', aggregate (port_issues w)),
       (''Stress Tests'', aggregate (stress w)),
       (''Bonus Features'', aggregate (bonus w))],
      io_multiplexing w = Inr (Some False) \<or> configuration w = Inr (Some False)
        \<or> basic_checks w = Inr (Some False))"
  unfolding test_sections_def
  by (simp only: run_sections_step run_sections.simps(1))
     (simp add: mandatory_sections_def check_memory_leaks_def aggregate_def)

lemma returned_false_is_hard_fail:
  assumes "io_multiplexing w = Inr (Some False) \<or> configuration w = Inr (Some False)
           \<or> basic_checks w = Inr (Some False)"
  shows "\<exists>results. run_correction_tests True w = Some (results, HARD_FAIL)"
  using assms
  by (auto simp add: run_correction_tests_def run_sections_test_sections final_verdict_def)

text \<open>
  Claim C1. A mandatory section whose aggregate is false, by whatever path, forces the
  verdict \<^verbatim>\<open>MANDATORY PART FAILED - GRADE: 0\<close>. The code does so when the section
  function returns \<^verbatim>\<open>False\<close> (\<open>returned_false_is_hard_fail\<close>), and does not when it
  raises: in the run \<open>configuration_raises\<close> the dictionary holds \<^verbatim>\<open>False\<close> for
  \<^verbatim>\<open>Configuration\<close>, every other section passes, and the verdict is the tier
  \<^verbatim>\<open>GOOD\<close> with the score 7/8.
\<close>

theorem configuration_exception_is_scored:
  "run_correction_tests True configuration_raises =
     Some ([(''Memory Leaks'', None),
            (''I/O Multiplexing'', Some True),
            (''Configuration'', Some False),
            (''Basic Checks'', Some True),
            (''CGI'', Some True),
            (''Browser Compatibility'', Some True),
            (''Port Issues'', Some True),
            (''Stress Tests'', Some True),
            (''Bonus Features'', Some True)],
           Score GOOD 7 8 (175 / 2))"
proof -
  have agg: "aggregate (Inl OtherException) = Some False"
    "aggregate (Inr (Some True)) = Some True"
    by (simp_all add: aggregate_def)
  have rs: "run_sections (test_sections configuration_raises) ([], False) =
     ([(''Memory Leaks'', None),
            (''I/O Multiplexing'', Some True),
            (''Configuration'', Some False),
            (''Basic Checks'', Some True),
            (''CGI'', Some True),
            (''Browser Compatibility'', Some True),
            (''Port Issues'', Some True),
            (''Stress Tests'', Some True),
            (''Bonus Features'', Some True)], False)"
    by (simp add: run_sections_test_sections configuration_raises_def agg)
  show ?thesis
    by (simp add: run_correction_tests_def rs final_verdict_def del: not_None_eq)
qed

text \<open>
  Claim C2. In a run where no mandatory section has the aggregate \<^verbatim>\<open>False\<close>, the
  dictionary holds the aggregate of each of the nine calls, the score is the number of
  sections with aggregate \<^verbatim>\<open>True\<close> over the number of sections with an aggregate other
  than \<^verbatim>\<open>None\<close>, the percentage is 0 when that number is 0, and the tier is
  \<^verbatim>\<open>EXCELLENT\<close> from 90, \<^verbatim>\<open>GOOD\<close> from 70, \<^verbatim>\<open>NEEDS WORK\<close> below.
\<close>

theorem score_when_no_mandatory_failure:
  assumes run: "run_correction_tests True w = Some (results, verdict)"
    and ok: "\<forall>name \<in> set mandatory_sections. map_of results name \<noteq> Some (Some False)"
  shows "results = map (\<lambda>(name, call). (name, aggregate call)) (test_sections w) \<and>
    (let passed = length (filter (\<lambda>(name, r). r = Some True) results);
         total = length (filter (\<lambda>(name, r). r \<noteq> None) results);
         percentage = (if total = 0 then 0 else (of_nat passed / of_nat total) * 100 :: rat)
     in verdict =
          Score (if percentage \<ge> 90 then EXCELLENT
                 else if percentage \<ge> 70 then GOOD else NEEDS_WORK)
            passed total percentage)"
proof -
  obtain rs mf where rs: "run_sections (test_sections w) ([], False) = (rs, mf)"
    by (cases "run_sections (test_sections w) ([], False)")
  from run rs have eq: "results = rs" and v: "verdict = final_verdict rs mf"
    by (auto simp add: run_correction_tests_def)
  from rs have res: "rs =
     [(''Memory Leaks'', None),
       (''I/O Multiplexing'', aggregate (io_multiplexing w)),
       (''Configuration'', aggregate (configuration w)),
       (''Basic Checks'', aggregate (basic_checks w)),
       (''CGI'', aggregate (cgi w)),
       (''Browser Compatibility'', aggregate (browser_compatibility w)),
       (''Port Issues'', aggregate (port_issues w)),
       (''Stress Tests'', aggregate (stress w)),
       (''Bonus Features'', aggregate (bonus w))]"
    and mf: "mf =
        (io_multiplexing w = Inr (Some False) \<or> configuration w = Inr (Some False)
           \<or> basic_checks w = Inr (Some False))"
    by (simp_all add: run_sections_test_sections)
  from ok have a: "aggregate (io_multiplexing w) \<noteq> Some False"
    and b: "aggregate (configuration w) \<noteq> Some False"
    and c: "aggregate (basic_checks w) \<noteq> Some False"
    by (simp_all add: eq res mandatory_sections_def)
  have nf: "\<not> mf"
    using a b c by (auto simp add: mf aggregate_def)
  have shape: "results = map (\<lambda>(name, call). (name, aggregate call)) (test_sections w)"
    by (simp add: eq res test_sections_def check_memory_leaks_def aggregate_def)
  have "verdict = final_verdict results False"
    using v nf eq by simp
  then show ?thesis
    using shape by (simp add: final_verdict_def Let_def)
qed

theorem score_when_no_mandatory_failure_witness:
  "list_all (\<lambda>name. map_of
       [(''Memory Leaks'', None), (''I/O Multiplexing'', Some True),
        (''Configuration'', Some True), (''Basic Checks'', Some True),
        (''CGI'', Some False), (''Browser Compatibility'', Some True),
        (''Port Issues'', Some False), (''Stress Tests'', None),
        (''Bonus Features'', Some False)] name \<noteq> Some (Some False)) mandatory_sections \<and>
   run_correction_tests True sample_run =
     Some ([(''Memory Leaks'', None), (''I/O Multiplexing'', Some True),
            (''Configuration'', Some True), (''Basic Checks'', Some True),
            (''CGI'', Some False), (''Browser Compatibility'', Some True),
            (''Port Issues'', Some False), (''Stress Tests'', None),
            (''Bonus Features'', Some False)],
           Score NEEDS_WORK 4 7 (400 / 7))"
proof -
  let ?R = "[(''Memory Leaks'', None), (''I/O Multiplexing'', Some True),
            (''Configuration'', Some True), (''Basic Checks'', Some True),
            (''CGI'', Some False), (''Browser Compatibility'', Some True),
            (''Port Issues'', Some False), (''Stress Tests'', None),
            (''Bonus Features'', Some False)]"
  have agg: "aggregate (Inr (Some False)) = Some False"
    "aggregate (Inr (Some True)) = Some True" "aggregate (Inr None) = None"
    by (simp_all add: aggregate_def)
  have rs: "run_sections (test_sections sample_run) ([], False) = (?R, False)"
    by (simp add: run_sections_test_sections sample_run_def agg)
  have run: "run_correction_tests True sample_run = Some (?R, final_verdict ?R False)"
    by (simp add: run_correction_tests_def rs)
  have ok: "\<forall>name \<in> set mandatory_sections. map_of ?R name \<noteq> Some (Some False)"
    by (simp add: mandatory_sections_def)
  have v: "final_verdict ?R False = Score NEEDS_WORK 4 7 (400 / 7)"
    using conjunct2 [OF score_when_no_mandatory_failure [OF run ok]]
    by (simp del: not_None_eq)
  show ?thesis
    using run v by (simp add: mandatory_sections_def)
qed

text \<open>
  Claim C8. \<^verbatim>\<open>check_memory_leaks\<close> returns \<^verbatim>\<open>None\<close>; in every run that reaches the loop
  the dictionary holds \<^verbatim>\<open>None\<close> for \<^verbatim>\<open>Memory Leaks\<close>, the mandatory flag is decided by
  the three other mandatory sections alone, and the verdict is the one computed from the
  dictionary without the \<^verbatim>\<open>Memory Leaks\<close> entry.
\<close>

theorem memory_leaks_always_skipped:
  "check_memory_leaks = Inr None \<and>
   (\<exists>results mandatory_fail.
      run_sections (test_sections w) ([], False) = (results, mandatory_fail) \<and>
      run_correction_tests True w = Some (results, final_verdict results mandatory_fail) \<and>
      map_of results ''Memory Leaks'' = Some None \<and>
      mandatory_fail =
        (io_multiplexing w = Inr (Some False) \<or> configuration w = Inr (Some False)
           \<or> basic_checks w = Inr (Some False)) \<and>
      final_verdict results mandatory_fail =
        final_verdict (filter (\<lambda>(name, r). name \<noteq> ''Memory Leaks'') results) mandatory_fail)"
proof -
  obtain results mandatory_fail where
    rs: "run_sections (test_sections w) ([], False) = (results, mandatory_fail)"
    by (cases "run_sections (test_sections w) ([], False)")
  have run: "run_correction_tests True w = Some (results, final_verdict results mandatory_fail)"
    by (simp add: run_correction_tests_def rs)
  from rs have res: "results =
     [(''Memory Leaks'', None),
       (''I/O Multiplexing'', aggregate (io_multiplexing w)),
       (''Configuration'', aggregate (configuration w)),
       (''Basic Checks'', aggregate (basic_checks w)),
       (''CGI'', aggregate (cgi w)),
       (''Browser Compatibility'', aggregate (browser_compatibility w)),
       (''Port Issues'', aggregate (port_issues w)),
       (''Stress Tests'', aggregate (stress w)),
       (''Bonus Features'', aggregate (bonus w))]"
    and mf: "mandatory_fail =
        (io_multiplexing w = Inr (Some False) \<or> configuration w = Inr (Some False)
           \<or> basic_checks w = Inr (Some False))"
    by (simp_all add: run_sections_test_sections)
  have look: "map_of results ''Memory Leaks'' = Some None"
    by (simp add: res)
  have same: "final_verdict results mandatory_fail =
        final_verdict (filter (\<lambda>(name, r). name \<noteq> ''Memory Leaks'') results) mandatory_fail"
    by (simp add: res final_verdict_def)
  show ?thesis
    using rs run look mf same by (simp add: check_memory_leaks_def)
qed

section \<open>Facts about the negative configuration tests\<close>








section \<open>Facts about the port conflict test\<close>

text \<open>
  Claim C4, as stated, fails: with a first server that has already exited and a second
  server that has exited too, both entries of \<^verbatim>\<open>tests_passed\<close> are \<^verbatim>\<open>True\<close> and the
  function returns \<^verbatim>\<open>True\<close>, although the first instance is not alive.
\<close>

theorem port_conflict_ignores_first_counterexample:
  "test_port_issues (completed 1 []) crashed exited (Some 1) = Some (Inr True)
   \<and> port_tests_passed (completed 1 []) crashed exited = Inr [True, True]
   \<and> \<not> (poll exited \<noteq> None \<and> poll crashed = None)"
  by (simp add: test_port_issues_def port_tests_passed_def completed_def exited_def
      crashed_def terminate_and_wait_def wait_forever_def)

text \<open>
  Claim C4, amended. The second entry of \<^verbatim>\<open>tests_passed\<close> is \<^verbatim>\<open>True\<close> exactly when
  the second server has exited when it is polled after its settle time of 2; the state of
  the first server is not examined. \<^verbatim>\<open>test_port_issues\<close> returns, when its unbounded
  waits come back, the conjunction of that entry with the entry of the duplicate port
  launch.
\<close>

theorem port_conflict_passes_iff_second_exited:
  "port_tests_passed (Inr result) server1 server2 =
     Inr [returncode result \<noteq> 0, poll server2 \<noteq> None]
   \<and> port_tests_passed (Inr result) server1 server2 =
       port_tests_passed (Inr result) other_server1 server2
   \<and> test_port_issues (Inr result) server1 server2 poll2_later =
       (if wait_forever server1 = None \<or> (poll2_later = None \<and> sigterm_exit server2 = None)
        then None
        else Some (Inr (returncode result \<noteq> 0 \<and> poll server2 \<noteq> None)))"
  by (simp add: test_port_issues_def port_tests_passed_def terminate_and_wait_def
      split: option.splits)

section \<open>Facts about stopping the server\<close>

lemma stop_server_bounded:
  "stop_server (t\<lparr>server_process := Some p\<rparr>) =
     Inr \<lparr>server_process = None,
          actions = actions t @ [Printed ''Stopping server...'', Terminate, Wait (Some 5)]
            @ (if wait_timeout p 5 = Inr () then [Printed ''Server stopped'']
               else [Kill, Printed ''Server killed''])\<rparr>"
  by (simp add: stop_server_def does_def wait_timeout_def split: option.splits)

text \<open>
  Claim C5. Every path that stops a server sends the termination signal, waits a bounded
  time and kills the process that has not exited. \<^verbatim>\<open>stop_server\<close> of the basic tester
  does (\<open>stop_server_bounded\<close>). The \<^verbatim>\<open>finally\<close> clause of \<^verbatim>\<open>test_io_multiplexing\<close>
  does not: for a server that ignores SIGTERM, \<^verbatim>\<open>wait()\<close> has no timeout, the call never
  returns and no kill is sent, where the bounded wait of 5 would have expired.
\<close>

theorem io_multiplexing_stop_never_returns:
  "test_io_multiplexing stubborn True (completed 0 ''epoll_wait(4, '') = None
   \<and> terminate_and_wait stubborn = None
   \<and> wait_timeout stubborn 5 = Inl TimeoutExpired"
  by (simp add: test_io_multiplexing_def terminate_and_wait_def wait_forever_def
      wait_timeout_def stubborn_def)

text \<open>
  Claim C6. \<^verbatim>\<open>stop_server\<close> never raises. The first call returns a tester whose handle
  is \<^verbatim>\<open>None\<close>, and the second call on that tester returns it unchanged; on a tester whose
  handle is \<^verbatim>\<open>None\<close> the call changes nothing; on a tester with a process the first
  call sends the termination signal and waits before it clears the handle.
\<close>

theorem stop_server_twice:
  "(\<exists>t1. stop_server t = Inr t1 \<and> server_process t1 = None \<and> stop_server t1 = Inr t1)
   \<and> stop_server (t\<lparr>server_process := None\<rparr>) = Inr (t\<lparr>server_process := None\<rparr>)
   \<and> (\<exists>t1 rest. stop_server (t\<lparr>server_process := Some p\<rparr>) = Inr t1
         \<and> actions t1 = actions t @ [Printed ''Stopping server...'', Terminate, Wait (Some 5)] @ rest
         \<and> server_process t1 = None \<and> stop_server t1 = Inr t1)"
proof -
  have none: "\<And>u. server_process u = None \<Longrightarrow> stop_server u = Inr u"
    by (simp add: stop_server_def)
  have some: "\<And>u q. server_process u = Some q \<Longrightarrow>
      \<exists>t1 rest. stop_server u = Inr t1 \<and> server_process t1 = None
        \<and> actions t1 = actions u @ [Printed ''Stopping server...'', Terminate, Wait (Some 5)] @ rest"
    by (auto simp add: stop_server_def does_def wait_timeout_def split: option.splits)
  have a: "\<exists>t1. stop_server t = Inr t1 \<and> server_process t1 = None \<and> stop_server t1 = Inr t1"
  proof (cases "server_process t")
    case None
    then show ?thesis using none by auto
  next
    case (Some q)
    from some [OF Some] obtain t1 where "stop_server t = Inr t1" "server_process t1 = None"
      by blast
    then show ?thesis using none by auto
  qed
  have b: "stop_server (t\<lparr>server_process := None\<rparr>) = Inr (t\<lparr>server_process := None\<rparr>)"
    by (simp add: none)
  have c: "\<exists>t1 rest. stop_server (t\<lparr>server_process := Some p\<rparr>) = Inr t1
         \<and> actions t1 = actions t @ [Printed ''Stopping server...'', Terminate, Wait (Some 5)] @ rest
         \<and> server_process t1 = None \<and> stop_server t1 = Inr t1"
  proof -
    have "server_process (t\<lparr>server_process := Some p\<rparr>) = Some p" by simp
    from some [OF this] obtain t1 rest where
      "stop_server (t\<lparr>server_process := Some p\<rparr>) = Inr t1" "server_process t1 = None"
      "actions t1 = actions (t\<lparr>server_process := Some p\<rparr>)
         @ [Printed ''Stopping server...'', Terminate, Wait (Some 5)] @ rest"
      by blast
    then show ?thesis using none by auto
  qed
  show ?thesis using a b c by blast
qed

section \<open>Facts about \<^verbatim>\<open>run_curl\<close>\<close>

lemma run_curl_completed:
  assumes "sh w command = (Inr result, w1)"
    and "sh w1 (command @ status_suffix) = (second, w2)"
  shows "run_curl sh command expected_code w =
     ((case second of
         Inl e \<Rightarrow> False
       | Inr status_result \<Rightarrow>
           judge expected_code (replace_quote (strip (stdout status_result)))), w2)"
  using assms by (cases second) (simp_all add: run_curl_def)

lemma run_curl_first_failure:
  assumes "sh w command = (Inl e, w1)"
  shows "run_curl sh command expected_code w = (False, w1)"
  using assms by (simp add: run_curl_def)

lemma str_int_400: "str_int 400 = ''400''"
  by code_simp

lemma judge_400: "judge (Some 400) status_code = (status_code = ''400'')"
  by (simp add: judge_def truthy_def str_int_400)

lemma strip_200: "replace_quote (strip ''200'') = ''200''"
  by code_simp

lemma str_int_200: "str_int 200 = ''200''"
  by code_simp

text \<open>
  Claim C9, as stated, fails: when the first execution of the command times out,
  \<^verbatim>\<open>run_curl\<close> returns \<^verbatim>\<open>False\<close> and the command has been executed once; the command
  with the status suffix is never executed.
\<close>

theorem run_curl_single_execution_counterexample:
  "run_curl (recording_shell (\<lambda>command. Inl TimeoutExpired)) index_probe (Some 200) []
     = (False, [index_probe])
   \<and> [index_probe] \<noteq> [index_probe, index_probe @ status_suffix]"
  by (simp add: run_curl_def recording_shell_def)

text \<open>
  Claim C9, amended. When the first execution of the command completes, \<^verbatim>\<open>run_curl\<close>
  executes the command a second time with the status suffix appended, on the world the
  first execution left; the result is \<^verbatim>\<open>False\<close> when the second execution raises and
  otherwise the comparison of the expected code with the status code of the second
  execution, whatever the first execution printed.
\<close>

theorem run_curl_runs_twice:
  assumes "sh w command = (Inr result, w1)"
    and "sh w1 (command @ status_suffix) = (second, w2)"
  shows "run_curl sh command expected_code w =
     ((case second of
         Inl e \<Rightarrow> False
       | Inr status_result \<Rightarrow>
           judge expected_code (replace_quote (strip (stdout status_result)))), w2)"
  using assms by (rule run_curl_completed)

theorem run_curl_runs_twice_witness:
  "recording_shell (page_then_status index_probe ''200'') [] index_probe
     = (completed 0 ''<html>'', [index_probe])
   \<and> recording_shell (page_then_status index_probe ''200'') [index_probe]
       (index_probe @ status_suffix)
     = (completed 0 ''200'', [index_probe, index_probe @ status_suffix])
   \<and> run_curl (recording_shell (page_then_status index_probe ''200'')) index_probe (Some 200) []
     = (True, [index_probe, index_probe @ status_suffix])"
proof -
  have a: "recording_shell (page_then_status index_probe ''200'') [] index_probe
     = (Inr \<lparr>returncode = 0, stdout = ''<html>'', stderr = []\<rparr>, [index_probe])"
    by (simp add: recording_shell_def page_then_status_def completed_def)
  have b: "recording_shell (page_then_status index_probe ''200'') [index_probe]
       (index_probe @ status_suffix)
     = (completed 0 ''200'', [index_probe, index_probe @ status_suffix])"
    by (simp add: recording_shell_def page_then_status_def status_suffix_def)
  have j: "judge (Some 200) ''200''"
    by (simp add: judge_def truthy_def str_int_200)
  show ?thesis
    using run_curl_runs_twice [OF a b, of "Some 200"] a b j
    by (simp add: completed_def strip_200)
qed

text \<open>
  Claim C7, as stated, fails: the probe with the method \<^verbatim>\<open>INVALID\<close> of
  \<^verbatim>\<open>test_error_codes\<close> expects the code 400 alone, so the answer 405, a member of the
  acceptable set, fails it.
\<close>

theorem invalid_method_expects_400_counterexample:
  "hd error_code_tests = (invalid_method_probe, 400)
   \<and> run_curl (recording_shell (page_then_status invalid_method_probe ''405''))
        invalid_method_probe (Some 400) []
       = (False, [invalid_method_probe, invalid_method_probe @ status_suffix])
   \<and> ''405'' \<in> set [''400'', ''405'', ''501'']"
proof -
  have a: "recording_shell (page_then_status invalid_method_probe ''405'') [] invalid_method_probe
     = (Inr \<lparr>returncode = 0, stdout = ''<html>'', stderr = []\<rparr>, [invalid_method_probe])"
    by (simp add: recording_shell_def page_then_status_def completed_def)
  have b: "recording_shell (page_then_status invalid_method_probe ''405'') [invalid_method_probe]
       (invalid_method_probe @ status_suffix)
     = (Inr \<lparr>returncode = 0, stdout = ''405'', stderr = []\<rparr>,
        [invalid_method_probe, invalid_method_probe @ status_suffix])"
    by (simp add: recording_shell_def page_then_status_def status_suffix_def completed_def)
  have s: "replace_quote (strip ''405'') = ''405''"
    by code_simp
  have r: "run_curl (recording_shell (page_then_status invalid_method_probe ''405''))
        invalid_method_probe (Some 400) []
       = (False, [invalid_method_probe, invalid_method_probe @ status_suffix])"
    using run_curl_completed [OF a b, of "Some 400"] by (simp add: s judge_400)
  have h: "hd error_code_tests = (invalid_method_probe, 400)"
    by (simp add: error_code_tests_def invalid_method_probe_def)
  show ?thesis using r h by simp
qed

text \<open>
  Claim C7, amended. The probe with the method \<^verbatim>\<open>UNKNOWN\<close> of \<^verbatim>\<open>test_basic_checks\<close>
  (the fourth entry of \<^verbatim>\<open>tests_passed\<close>) passes exactly when the stripped status output
  is one of 400, 405 and 501. The probe with the method \<^verbatim>\<open>INVALID\<close> of
  \<^verbatim>\<open>test_error_codes\<close>, when both executions of \<^verbatim>\<open>run_curl\<close> complete, passes exactly
  when the status code is 400.
\<close>

theorem malformed_method_predicates:
  assumes "sh w invalid_method_probe = (Inr result, w1)"
    and "sh w1 (invalid_method_probe @ status_suffix) = (Inr status_result, w2)"
  shows "basic_tests_passed out ! 3 = (strip (unknown_out out) \<in> {''400'', ''405'', ''501''})
   \<and> length (basic_tests_passed out) = 5
   \<and> hd error_code_tests = (invalid_method_probe, 400)
   \<and> fst (run_curl sh invalid_method_probe (Some 400) w)
       = (replace_quote (strip (stdout status_result)) = ''400'')"
proof -
  have h: "hd error_code_tests = (invalid_method_probe, 400)"
    by (simp add: error_code_tests_def invalid_method_probe_def)
  have r: "fst (run_curl sh invalid_method_probe (Some 400) w)
       = (replace_quote (strip (stdout status_result)) = ''400'')"
    using run_curl_completed [OF assms, of "Some 400"] by (simp add: judge_400)
  have u: "basic_tests_passed out ! 3 = (strip (unknown_out out) \<in> {''400'', ''405'', ''501''})"
    by (simp add: basic_tests_passed_def)
  have l: "length (basic_tests_passed out) = 5"
    by (simp add: basic_tests_passed_def)
  show ?thesis using h r u l by simp
qed

theorem malformed_method_predicates_witness:
  "basic_tests_passed \<lparr>get_out = ''200'', post_out = ''201'', delete_out = ''204'',
       unknown_out = ''501'', upload_out = ''201''\<rparr> ! 3
   \<and> run_curl (recording_shell (page_then_status invalid_method_probe ''400''))
        invalid_method_probe (Some 400) []
       = (True, [invalid_method_probe, invalid_method_probe @ status_suffix])"
proof -
  have a: "recording_shell (page_then_status invalid_method_probe ''400'') [] invalid_method_probe
     = (Inr \<lparr>returncode = 0, stdout = ''<html>'', stderr = []\<rparr>, [invalid_method_probe])"
    by (simp add: recording_shell_def page_then_status_def completed_def)
  have b: "recording_shell (page_then_status invalid_method_probe ''400'') [invalid_method_probe]
       (invalid_method_probe @ status_suffix)
     = (Inr \<lparr>returncode = 0, stdout = ''400'', stderr = []\<rparr>,
        [invalid_method_probe, invalid_method_probe @ status_suffix])"
    by (simp add: recording_shell_def page_then_status_def status_suffix_def completed_def)
  have s: "replace_quote (strip ''400'') = ''400''"
    by code_simp
  have s2: "strip ''501'' = ''501''"
    by code_simp
  have fstv: "fst (run_curl (recording_shell (page_then_status invalid_method_probe ''400''))
        invalid_method_probe (Some 400) [])"
    using malformed_method_predicates [OF a b] by (simp add: s)
  have sndv: "snd (run_curl (recording_shell (page_then_status invalid_method_probe ''400''))
        invalid_method_probe (Some 400) [])
     = [invalid_method_probe, invalid_method_probe @ status_suffix]"
    using run_curl_completed [OF a b, of "Some 400"] by simp
  have third: "basic_tests_passed \<lparr>get_out = ''200'', post_out = ''201'', delete_out = ''204'',
       unknown_out = ''501'', upload_out = ''201''\<rparr> ! 3"
    using malformed_method_predicates [OF a b] by (simp add: s2)
  show ?thesis
    using fstv sndv third by (simp add: prod_eq_iff)
qed

section \<open>Facts about \<^verbatim>\<open>run_all_tests\<close>\<close>

text \<open>
  Claim C10. When the server has exited by the time \<^verbatim>\<open>start_server\<close> polls it, after
  the settle time of 3, \<^verbatim>\<open>run_all_tests\<close> prints the two failure messages and returns:
  no section is run and there is no summary.
\<close>

theorem failed_start_aborts_run:
  assumes "poll (first_server w) \<noteq> None"
  shows "run_all_tests w t =
     Inr (\<lparr>server_process = Some (first_server w),
           actions = actions t @
             [Printed ''Starting webserv'', Spawn, Sleep 3, Printed ''Server failed to start'',
              Printed ''Failed to start server, aborting tests'']\<rparr>, None)"
  using assms by (simp add: run_all_tests_def start_server_def does_def)

theorem failed_start_aborts_run_witness:
  "poll (first_server failed_start) = Some 1
   \<and> run_all_tests failed_start \<lparr>server_process = None, actions = []\<rparr> =
     Inr (\<lparr>server_process = Some exited,
           actions =
             [Printed ''Starting webserv'', Spawn, Sleep 3, Printed ''Server failed to start'',
              Printed ''Failed to start server, aborting tests'']\<rparr>, None)"
proof -
  have p: "poll (first_server failed_start) \<noteq> None"
    by (simp add: failed_start_def exited_def)
  show ?thesis
    using failed_start_aborts_run [OF p, of "\<lparr>server_process = None, actions = []\<rparr>"]
    by (simp add: failed_start_def exited_def)
qed

end
